theory Spec2Isabelle
  imports Main
begin

unbundle bit_operations_syntax

section \<open>The IPython controller application: \<open>IPython/kernel/scripts/ipcontrollerapp.py\<close>\<close>

text \<open>
  The module bootstraps the controller process.  Its methods read three
  configuration layers, resolve the cluster directory, provision the
  \<open>security\<close> and \<open>log\<close> subdirectories, start logging and run the configured
  import statements.  Every method of \<open>IPControllerApp\<close> mutates the application
  object and the operating system; the model threads both through one record and
  returns, next to the new state, the exception that escaped (if any).  Side
  effects made before an exception is raised stay in the returned state, as they
  do in Python.
\<close>

subsection \<open>Exceptions\<close>

datatype exc = AttributeError | TypeError | OSError | IOError | Raised string

subsection \<open>Configuration objects\<close>

text \<open>
  A \<open>Config\<close> is a dictionary of sections, each a dictionary of settings read by
  attribute access; reading a setting that is not there raises
  \<open>AttributeError\<close>.  A setting is therefore an optional field.  The command line
  loader fixes the types (\<open>type=str\<close>, \<open>store_true\<close>), so the fields are typed.
\<close>

record settings =
  cluster_dir :: "string option"
  profile :: "string option"
  reuse_furls :: "bool option"
  import_statements :: "string list option"
  log_dir_name :: "string option"
  security_dir_name :: "string option"
  log_to_file :: "bool option"
  security_dir :: "string option"
  log_dir :: "string option"

record config =
  Global :: settings
  FCClientServiceFactory :: settings
  FCEngineServiceFactory :: settings

definition empty_settings :: settings where
  "empty_settings =
     \<lparr>cluster_dir = None, profile = None, reuse_furls = None,
      import_statements = None, log_dir_name = None, security_dir_name = None,
      log_to_file = None, security_dir = None, log_dir = None\<rparr>"

definition empty_config :: config where
  "empty_config =
     \<lparr>Global = empty_settings, FCClientServiceFactory = empty_settings,
      FCEngineServiceFactory = empty_settings\<rparr>"

subsection \<open>Paths\<close>

definition startswith :: "string \<Rightarrow> string \<Rightarrow> bool" where
  "startswith s p = (take (length p) s = p)"

definition endswith :: "string \<Rightarrow> string \<Rightarrow> bool" where
  "endswith s p = (length p \<le> length s \<and> drop (length s - length p) s = p)"

text \<open>\<open>os.path.join(a, b)\<close> of \<open>posixpath\<close>, for two arguments.\<close>

definition join :: "string \<Rightarrow> string \<Rightarrow> string" where
  "join a b =
     (if startswith b ''/'' then b
      else if a = [] \<or> endswith a ''/'' then a @ b
      else a @ ''/'' @ b)"

definition isabs :: "string \<Rightarrow> bool" where
  "isabs s = startswith s ''/''"

text \<open>\<open>os.path.dirname\<close> of \<open>posixpath\<close>.\<close>

definition dirname :: "string \<Rightarrow> string" where
  "dirname p =
     (let head = rev (dropWhile (\<lambda>c. c \<noteq> CHR ''/'') (rev p))
      in if head \<noteq> [] \<and> \<not> list_all (\<lambda>c. c = CHR ''/'') head
         then rev (dropWhile (\<lambda>c. c = CHR ''/'') (rev head))
         else head)"

subsection \<open>The file system\<close>

text \<open>
  A path names nothing, a directory or a regular file; directories and files
  carry their permission bits, files their content.
\<close>

text \<open>Python's octal literals: \<open>0700\<close> is \<open>oct [0, 7, 0, 0]\<close>.\<close>

definition oct :: "int list \<Rightarrow> int" where
  "oct ds = foldl (\<lambda>acc d. 8 * acc + d) 0 ds"




datatype node = Dir int | File int string

type_synonym filesystem = "string \<rightharpoonup> node"

definition isdir :: "filesystem \<Rightarrow> string \<Rightarrow> bool" where
  "isdir f p = (case f p of Some (Dir m) \<Rightarrow> True | _ \<Rightarrow> False)"

text \<open>
  \<open>os.mkdir(path, mode)\<close> raises \<open>OSError\<close> when the path already names
  something and when the parent of the path is not a directory (a path without
  directory part lies in the working directory, which is there).  The directory
  it makes has the bits of \<open>mode\<close> that the process umask does not mask:
  \<open>mode & ~umask\<close>.
\<close>

definition mkdir :: "int \<Rightarrow> filesystem \<Rightarrow> string \<Rightarrow> int \<Rightarrow> exc + filesystem" where
  "mkdir um f p mode =
     (case f p of
        Some n \<Rightarrow> Inl OSError
      | None \<Rightarrow>
          if dirname p \<noteq> [] \<and> \<not> isdir f (dirname p) then Inl OSError
          else Inr (f(p \<mapsto> Dir (mode AND NOT um))))"

text \<open>
  \<open>os.chmod(path, mode)\<close> raises \<open>OSError\<close> when the path names nothing;
  the umask plays no part in it.
\<close>

definition chmod :: "filesystem \<Rightarrow> string \<Rightarrow> int \<Rightarrow> exc + filesystem" where
  "chmod f p mode =
     (case f p of
        None \<Rightarrow> Inl OSError
      | Some (Dir m) \<Rightarrow> Inr (f(p \<mapsto> Dir mode))
      | Some (File m c) \<Rightarrow> Inr (f(p \<mapsto> File mode c)))"

text \<open>
  \<open>open(path, 'w')\<close> raises \<open>IOError\<close> on a directory, truncates a file that is
  there and creates one (with \<open>0666\<close>) that is not.  Whether the parent of the
  path is a directory is not checked here.
\<close>

definition open_w :: "filesystem \<Rightarrow> string \<Rightarrow> exc + filesystem" where
  "open_w f p =
     (case f p of
        None \<Rightarrow> Inr (f(p \<mapsto> File (oct [0, 6, 6, 6]) []))
      | Some (Dir m) \<Rightarrow> Inl IOError
      | Some (File m c) \<Rightarrow> Inr (f(p \<mapsto> File m [])))"

subsection \<open>The application object and its process environment\<close>

datatype stream = Stdout | OpenFile string

text \<open>
  The fields up to \<open>self_log_dir\<close> are the attributes of the application object
  (those that clash with a setting's name carry the prefix \<open>self\<close>);
  \<open>log_observer\<close> is the stream handed to \<open>log.startLogging\<close> and \<open>logged\<close> the
  messages handed to \<open>log.msg\<close>.  The rest is the process environment:
  the file system, the umask, the working directory, the process id, and what the
  operating system substitutes for a leading \<open>~\<close> and for \<open>$\<close> variables.
\<close>

record app =
  default_config :: config
  command_line_config :: config
  file_config :: config
  master_config :: config
  ipythondir :: string
  self_cluster_dir :: "string option"
  self_profile :: "string option"
  self_security_dir :: "string option"
  self_log_dir :: "string option"
  log_observer :: "stream option"
  logged :: "string list"
  fs :: filesystem
  umask :: int
  cwd :: string
  pid :: nat
  user_home :: "string \<Rightarrow> string"
  env_subst :: "string \<Rightarrow> string"

text \<open>
  \<open>os.path.expanduser\<close> returns a path that does not start with \<open>~\<close> as it is,
  and \<open>os.path.expandvars\<close> one without \<open>$\<close>; what they substitute otherwise is
  the environment's.
\<close>

definition expanduser :: "app \<Rightarrow> string \<Rightarrow> string" where
  "expanduser a path = (if \<not> startswith path ''~'' then path else user_home a path)"

definition expandvars :: "app \<Rightarrow> string \<Rightarrow> string" where
  "expandvars a path = (if CHR ''$'' \<notin> set path then path else env_subst a path)"

subsection \<open>\<open>IPControllerApp\<close>\<close>

definition name :: string where
  "name = ''ipcontroller''"

definition create_default_config :: "app \<Rightarrow> app" where
  "create_default_config a =
     a\<lparr>default_config := (default_config a)\<lparr>Global := (Global (default_config a))
        \<lparr>reuse_furls := Some False,
         import_statements := Some [],
         profile := Some ''default'',
         log_dir_name := Some ''log'',
         security_dir_name := Some ''security'',
         log_to_file := Some False,
         cluster_dir := Some ''''\<rparr>\<rparr>\<rparr>"

text \<open>
  The pattern \<open>try: v = self.command_line_config.Global.x\<close>
  \<open>except AttributeError: v = self.default_config.Global.x\<close>.
\<close>

definition command_line_or_default :: "(settings \<Rightarrow> 'v option) \<Rightarrow> app \<Rightarrow> exc + 'v" where
  "command_line_or_default x a =
     (case x (Global (command_line_config a)) of
        Some v \<Rightarrow> Inr v
      | None \<Rightarrow>
          (case x (Global (default_config a)) of
             Some v \<Rightarrow> Inr v
           | None \<Rightarrow> Inl AttributeError))"

definition set_cluster_dir :: "string \<Rightarrow> config \<Rightarrow> config" where
  "set_cluster_dir d c = c\<lparr>Global := (Global c)\<lparr>cluster_dir := Some d\<rparr>\<rparr>"

definition find_cluster_dir :: "app \<Rightarrow> exc option \<times> app" where
  "find_cluster_dir a =
     (case command_line_or_default cluster_dir a of
        Inl e \<Rightarrow> (Some e, a)
      | Inr d0 \<Rightarrow>
          let d = expandvars a (expanduser a d0);
              a1 = a\<lparr>self_cluster_dir := Some d\<rparr>
          in
            (case
               (if d = [] then
                  (case command_line_or_default profile a1 of
                     Inl e \<Rightarrow> Inl e
                   | Inr p \<Rightarrow>
                       let cluster_dir_name = ''cluster_'' @ p;
                           try_this = join (cwd a1) cluster_dir_name
                       in
                         Inr (a1\<lparr>self_profile := Some p\<rparr>,
                              if isdir (fs a1) try_this then try_this
                              else join (ipythondir a1) cluster_dir_name))
                else Inr (a1, d))
             of
               Inl e \<Rightarrow> (Some e, a1)
             | Inr (a2, r) \<Rightarrow>
                 (None,
                  a2\<lparr>self_cluster_dir := Some r,
                     default_config := set_cluster_dir r (default_config a2),
                     command_line_config := set_cluster_dir r (command_line_config a2)\<rparr>)))"

definition set_security_dir :: "string \<Rightarrow> config \<Rightarrow> config" where
  "set_security_dir d c = c\<lparr>Global := (Global c)\<lparr>security_dir := Some d\<rparr>\<rparr>"

definition set_log_dir :: "string \<Rightarrow> config \<Rightarrow> config" where
  "set_log_dir d c = c\<lparr>Global := (Global c)\<lparr>log_dir := Some d\<rparr>\<rparr>"

definition set_client_reuse_furls :: "bool \<Rightarrow> config \<Rightarrow> config" where
  "set_client_reuse_furls r c =
     c\<lparr>FCClientServiceFactory := (FCClientServiceFactory c)\<lparr>reuse_furls := Some r\<rparr>\<rparr>"

definition set_engine_reuse_furls :: "bool \<Rightarrow> config \<Rightarrow> config" where
  "set_engine_reuse_furls r c =
     c\<lparr>FCEngineServiceFactory := (FCEngineServiceFactory c)\<lparr>reuse_furls := Some r\<rparr>\<rparr>"

text \<open>
  The builtin \<open>hasattr\<close> takes an object and a name.  The source calls it with
  one argument, \<open>hasattr(self.master_config.Global.reuse_furls)\<close>: the argument
  is evaluated and the call raises \<open>TypeError\<close>.
\<close>

definition hasattr_1 :: "'a \<Rightarrow> exc + bool" where
  "hasattr_1 x = Inl TypeError"

definition pre_construct :: "app \<Rightarrow> exc option \<times> app" where
  "pre_construct a =
     (case cluster_dir (Global (master_config a)) of
        None \<Rightarrow> (Some AttributeError, a)
      | Some cd \<Rightarrow>
     (case security_dir_name (Global (master_config a)) of
        None \<Rightarrow> (Some AttributeError, a)
      | Some sn \<Rightarrow>
     (case log_dir_name (Global (master_config a)) of
        None \<Rightarrow> (Some AttributeError, a)
      | Some ln \<Rightarrow>
          let security_dir = join cd sn;
              log_dir = join cd ln
          in
     (case (if \<not> isdir (fs a) security_dir
            then mkdir (umask a) (fs a) security_dir (oct [0, 7, 0, 0])
            else chmod (fs a) security_dir (oct [0, 7, 0, 0])) of
        Inl e \<Rightarrow> (Some e, a)
      | Inr f1 \<Rightarrow>
     (case (if \<not> isdir f1 log_dir
            then mkdir (umask a) f1 log_dir (oct [0, 7, 7, 7])
            else Inr f1) of
        Inl e \<Rightarrow> (Some e, a\<lparr>fs := f1\<rparr>)
      | Inr f2 \<Rightarrow>
          let a1 = a\<lparr>fs := f2,
                     self_security_dir := Some security_dir,
                     self_log_dir := Some log_dir,
                     master_config :=
                       set_log_dir log_dir (set_security_dir security_dir (master_config a))\<rparr>
          in
     (case reuse_furls (Global (master_config a1)) of
        None \<Rightarrow> (Some AttributeError, a1)
      | Some r \<Rightarrow>
     (case hasattr_1 r of
        Inl e \<Rightarrow> (Some e, a1)
      | Inr b \<Rightarrow>
          if b then
            (None,
             a1\<lparr>master_config :=
                  set_engine_reuse_furls r (set_client_reuse_furls r (master_config a1))\<rparr>)
          else (None, a1))))))))"

text \<open>\<open>str\<close> of a process id: the decimal digits.\<close>

definition digit :: "nat \<Rightarrow> char" where
  "digit d = ''0123456789'' ! d"

function str :: "nat \<Rightarrow> string" where
  "str n = (if n < 10 then [digit n] else str (n div 10) @ [digit (n mod 10)])"
  by pat_completeness auto
termination
  by (relation "measure id") auto

declare str.simps [simp del]

definition start_logging :: "app \<Rightarrow> exc option \<times> app" where
  "start_logging a =
     (case log_to_file (Global (master_config a)) of
        None \<Rightarrow> (Some AttributeError, a)
      | Some b \<Rightarrow>
          if b then
            (let log_filename = name @ ''-'' @ str (pid a) @ ''.log'' in
               (case self_log_dir a of
                  None \<Rightarrow> (Some AttributeError, a)
                | Some ld \<Rightarrow>
                    let logfile = join ld log_filename in
                      (case open_w (fs a) logfile of
                         Inl e \<Rightarrow> (Some e, a)
                       | Inr f \<Rightarrow> (None, a\<lparr>fs := f, log_observer := Some (OpenFile logfile)\<rparr>))))
          else (None, a\<lparr>log_observer := Some Stdout\<rparr>))"

text \<open>
  \<open>exec s in globals(), locals()\<close> runs a statement in the module's namespace.
  What a statement does is the statement's: \<open>ex s ns\<close> is the exception it
  raises (if any) and the namespace it leaves.  The bare \<open>except:\<close> catches
  every exception and hands one message to \<open>log.msg\<close>.
\<close>

definition log_msg :: "string \<Rightarrow> app \<Rightarrow> app" where
  "log_msg m a = a\<lparr>logged := logged a @ [m]\<rparr>"

fun import_loop ::
  "(string \<Rightarrow> 'ns \<Rightarrow> exc option \<times> 'ns) \<Rightarrow> string list \<Rightarrow> app \<times> 'ns \<Rightarrow> app \<times> 'ns" where
  "import_loop ex [] (a, ns) = (a, ns)"
| "import_loop ex (s # ss) (a, ns) =
     (case ex s ns of
        (None, ns') \<Rightarrow> import_loop ex ss (a, ns')
      | (Some e, ns') \<Rightarrow>
          import_loop ex ss (log_msg (''Error running import statement: '' @ s) a, ns'))"

definition import_statements_app ::
  "(string \<Rightarrow> 'ns \<Rightarrow> exc option \<times> 'ns) \<Rightarrow> app \<times> 'ns \<Rightarrow> exc option \<times> app \<times> 'ns" where
  "import_statements_app ex st =
     (case import_statements (Global (master_config (fst st))) of
        None \<Rightarrow> (Some AttributeError, st)
      | Some statements \<Rightarrow> (None, import_loop ex statements st))"

subsection \<open>Concrete states\<close>

text \<open>
  A process started by user \<open>u\<close> in \<open>/w\<close> with process id 4242, the usual
  umask \<open>022\<close>, no variable in its environment, and the directory \<open>/srv/c\<close>
  on disk.
\<close>

definition initial_app :: app where
  "initial_app =
     \<lparr>default_config = empty_config, command_line_config = empty_config,
      file_config = empty_config, master_config = empty_config,
      ipythondir = ''/home/u/.ipython'',
      self_cluster_dir = None, self_profile = None, self_security_dir = None,
      self_log_dir = None, log_observer = None, logged = [],
      fs = [''/srv/c'' \<mapsto> Dir (oct [0, 7, 5, 5])],
      umask = oct [0, 2, 2],
      cwd = ''/w'', pid = 4242,
      user_home = (\<lambda>p. ''/home/u'' @ drop 1 p), env_subst = (\<lambda>p. p)\<rparr>"

definition default_app :: app where
  "default_app = create_default_config initial_app"

definition explicit_app :: app where
  "explicit_app =
     default_app\<lparr>command_line_config := set_cluster_dir ''/srv/c'' (command_line_config default_app)\<rparr>"

definition relative_app :: app where
  "relative_app =
     default_app\<lparr>command_line_config := set_cluster_dir ''mycluster'' (command_line_config default_app)\<rparr>"

definition file_layer_app :: app where
  "file_layer_app =
     default_app\<lparr>file_config := set_cluster_dir ''/srv/c'' (file_config default_app)\<rparr>"

text \<open>No \<open>cluster_dir\<close> on the command line, one in the default layer, another in the file.\<close>

definition default_dir_app :: app where
  "default_dir_app =
     default_app\<lparr>default_config := set_cluster_dir ''/opt/d'' (default_config default_app),
                 file_config := set_cluster_dir ''/srv/c'' (file_config default_app)\<rparr>"

text \<open>
  The merged configuration of a controller started with \<open>--cluster-dir /srv/c\<close>
  \<open>-r --log-to-file\<close> and three import statements in its configuration file.
\<close>

definition started_master :: config where
  "started_master =
     empty_config\<lparr>Global := empty_settings
       \<lparr>cluster_dir := Some ''/srv/c'',
        profile := Some ''default'',
        reuse_furls := Some True,
        import_statements := Some [''import os'', ''import nosuchmodule'', ''x = 1''],
        log_dir_name := Some ''log'',
        security_dir_name := Some ''security'',
        log_to_file := Some True\<rparr>\<rparr>"

text \<open>A first start: \<open>/srv/c\<close> has no subdirectory yet.\<close>

definition fresh_app :: app where
  "fresh_app = initial_app\<lparr>master_config := started_master\<rparr>"

text \<open>A restart: both subdirectories are there, \<open>security\<close> with loose permissions.\<close>

definition restarted_app :: app where
  "restarted_app =
     fresh_app\<lparr>fs := [''/srv/c'' \<mapsto> Dir (oct [0, 7, 5, 5]),
                       ''/srv/c/security'' \<mapsto> Dir (oct [0, 7, 7, 7]),
                       ''/srv/c/log'' \<mapsto> Dir (oct [0, 7, 5, 5])]\<rparr>"

definition logging_app :: app where
  "logging_app = restarted_app\<lparr>self_log_dir := Some ''/srv/c/log''\<rparr>"

definition quiet_app :: app where
  "quiet_app =
     logging_app\<lparr>master_config :=
       started_master\<lparr>Global := (Global started_master)\<lparr>log_to_file := Some False\<rparr>\<rparr>\<rparr>"

text \<open>Statements that import a module that is not there raise; the others are recorded.\<close>

definition run_statement :: "string \<Rightarrow> string list \<Rightarrow> exc option \<times> string list" where
  "run_statement s ns =
     (if s = ''import nosuchmodule'' then (Some (Raised ''ImportError''), ns)
      else (None, ns @ [s]))"

section \<open>Properties\<close>

subsection \<open>Auxiliary facts\<close>

lemmas example_defs =
  initial_app_def default_app_def explicit_app_def relative_app_def file_layer_app_def
  default_dir_app_def create_default_config_def set_cluster_dir_def empty_config_def empty_settings_def

lemmas path_defs = join_def startswith_def endswith_def isabs_def isdir_def dirname_def

lemma command_line_or_default_self_cluster_dir [simp]:
  "command_line_or_default x (a\<lparr>self_cluster_dir := v\<rparr>) = command_line_or_default x a"
  by (simp add: command_line_or_default_def split: option.splits)

lemma setting_Inr:
  assumes "x (Global (command_line_config a)) = Some v
     \<or> (x (Global (command_line_config a)) = None \<and> x (Global (default_config a)) = Some v)"
  shows "command_line_or_default x a = Inr v"
  using assms by (auto simp: command_line_or_default_def)

lemma setting_defined:
  assumes "x (Global (default_config a)) \<noteq> None"
  shows "\<exists>v. command_line_or_default x a = Inr v"
  using assms
  by (cases "x (Global (command_line_config a))") (auto simp: command_line_or_default_def)

lemma expand_self_cluster_dir [simp]:
  "expandvars (a\<lparr>self_cluster_dir := v\<rparr>) = expandvars a"
  "expanduser (a\<lparr>self_cluster_dir := v\<rparr>) = expanduser a"
  by (auto simp: expandvars_def expanduser_def fun_eq_iff)

lemma find_cluster_dir_explicit:
  assumes "command_line_or_default cluster_dir a = Inr d0"
    and "expandvars a (expanduser a d0) = d" and "d \<noteq> []"
  shows "find_cluster_dir a =
           (None, a\<lparr>self_cluster_dir := Some d,
                     default_config := set_cluster_dir d (default_config a),
                     command_line_config := set_cluster_dir d (command_line_config a)\<rparr>)"
  using assms by (simp add: find_cluster_dir_def Let_def)

lemma find_cluster_dir_profile:
  assumes "command_line_or_default cluster_dir a = Inr d0"
    and "expandvars a (expanduser a d0) = []"
    and "command_line_or_default profile a = Inr p"
    and "r = (if isdir (fs a) (join (cwd a) (''cluster_'' @ p))
              then join (cwd a) (''cluster_'' @ p)
              else join (ipythondir a) (''cluster_'' @ p))"
  shows "find_cluster_dir a =
           (None, a\<lparr>self_profile := Some p, self_cluster_dir := Some r,
                     default_config := set_cluster_dir r (default_config a),
                     command_line_config := set_cluster_dir r (command_line_config a)\<rparr>)"
  using assms by (simp add: find_cluster_dir_def Let_def)


lemma find_cluster_dir_cong:
  fixes a b :: app
  assumes "command_line_or_default cluster_dir b = command_line_or_default cluster_dir a"
    and "command_line_or_default profile b = command_line_or_default profile a"
    and "user_home b = user_home a" and "env_subst b = env_subst a"
    and "cwd b = cwd a" and "fs b = fs a" and "ipythondir b = ipythondir a"
    and "self_cluster_dir b = self_cluster_dir a"
  shows "fst (find_cluster_dir b) = fst (find_cluster_dir a)
       \<and> self_cluster_dir (snd (find_cluster_dir b)) = self_cluster_dir (snd (find_cluster_dir a))"
proof (cases "command_line_or_default cluster_dir a")
  case (Inl e)
  with assms show ?thesis by (simp add: find_cluster_dir_def)
next
  case (Inr d0)
  have e: "expandvars b (expanduser b d0) = expandvars a (expanduser a d0)"
    using assms(3,4) by (simp add: expandvars_def expanduser_def)
  show ?thesis
  proof (cases "expandvars a (expanduser a d0) = []")
    case False
    then show ?thesis
      using Inr assms(1) e
        find_cluster_dir_explicit [of a d0 "expandvars a (expanduser a d0)"]
        find_cluster_dir_explicit [of b d0 "expandvars a (expanduser a d0)"]
      by simp
  next
    case True
    show ?thesis
    proof (cases "command_line_or_default profile a")
      case (Inl e')
      then show ?thesis
        using Inr assms(1,2) e True by (simp add: find_cluster_dir_def Let_def)
    next
      case p: (Inr p)
      then show ?thesis
        using Inr assms(1,2,5,6,7) e True
          find_cluster_dir_profile [of a d0 p, OF _ _ _ refl]
          find_cluster_dir_profile [of b d0 p, OF _ _ _ refl]
        by simp
    qed
  qed
qed

lemmas master_defs = fresh_app_def restarted_app_def started_master_def logging_app_def
  quiet_app_def initial_app_def empty_config_def empty_settings_def

lemma isdir_iff: "isdir f p \<longleftrightarrow> (\<exists>m. f p = Some (Dir m))"
  by (auto simp: isdir_def split: option.splits node.splits)




lemma provision_security:
  assumes "(f p = None \<and> (dirname p = [] \<or> isdir f (dirname p))) \<or> (\<exists>m. f p = Some (Dir m))"
  shows "(if \<not> isdir f p then mkdir u f p k else chmod f p k) =
           Inr (f(p \<mapsto> Dir (if isdir f p then k else k AND NOT u)))"
  using assms by (auto simp: isdir_iff mkdir_def chmod_def)

lemma provision_security_frame:
  assumes "(if \<not> isdir f p then mkdir u f p k else chmod f p k) = Inr f1"
  shows "f1 = f(p \<mapsto> Dir (if isdir f p then k else k AND NOT u))"
  using assms by (auto simp: isdir_iff mkdir_def chmod_def split: if_splits option.splits)

lemma provision_log:
  assumes "(if \<not> isdir f p then mkdir u f p k else Inr f) = Inr f2"
  shows "f2 = (case f p of None \<Rightarrow> f(p \<mapsto> Dir (k AND NOT u)) | Some n \<Rightarrow> f)"
  using assms by (auto simp: isdir_iff mkdir_def split: if_splits option.splits)

lemma provision_log_absent:
  assumes "f p = None" and "dirname p = [] \<or> isdir f (dirname p)"
  shows "(if \<not> isdir f p then mkdir u f p k else Inr f) = Inr (f(p \<mapsto> Dir (k AND NOT u)))"
  using assms by (auto simp: isdir_iff mkdir_def)

lemma pre_construct_fs_cases:
  assumes "cluster_dir (Global (master_config a)) = Some cd"
    and "security_dir_name (Global (master_config a)) = Some sn"
    and "log_dir_name (Global (master_config a)) = Some ln"
  shows "(case (if \<not> isdir (fs a) (join cd sn)
                then mkdir (umask a) (fs a) (join cd sn) (oct [0, 7, 0, 0])
                else chmod (fs a) (join cd sn) (oct [0, 7, 0, 0])) of
            Inl e \<Rightarrow> fs (snd (pre_construct a)) = fs a
          | Inr f1 \<Rightarrow>
              (case (if \<not> isdir f1 (join cd ln)
                     then mkdir (umask a) f1 (join cd ln) (oct [0, 7, 7, 7]) else Inr f1) of
                 Inl e \<Rightarrow> fs (snd (pre_construct a)) = f1
               | Inr f2 \<Rightarrow> fs (snd (pre_construct a)) = f2))"
  using assms
  by (simp add: pre_construct_def Let_def hasattr_1_def set_log_dir_def set_security_dir_def
      split: sum.splits option.splits)

lemma pre_construct_always_raises: "fst (pre_construct a) \<noteq> None"
  by (simp add: pre_construct_def Let_def hasattr_1_def split: sum.splits option.splits)

lemma pre_construct_factories:
  "FCClientServiceFactory (master_config (snd (pre_construct a))) =
     FCClientServiceFactory (master_config a)
   \<and> FCEngineServiceFactory (master_config (snd (pre_construct a))) =
     FCEngineServiceFactory (master_config a)"
  by (simp add: pre_construct_def Let_def hasattr_1_def set_log_dir_def set_security_dir_def
      split: sum.splits option.splits)

lemma pre_construct_security_path_is_file:
  assumes "cluster_dir (Global (master_config a)) = Some cd"
    and "security_dir_name (Global (master_config a)) = Some sn"
    and "log_dir_name (Global (master_config a)) = Some ln"
    and "fs a (join cd sn) = Some (File m c)"
  shows "pre_construct a = (Some OSError, a)"
  using assms by (simp add: pre_construct_def Let_def isdir_def mkdir_def)

lemma open_w_not_dir:
  assumes "\<not> isdir f p"
  shows "\<exists>m. open_w f p = Inr (f(p \<mapsto> File m []))"
  using assms by (auto simp: open_w_def isdir_def split: option.splits node.splits)

lemma str_4242: "str 4242 = ''4242''"
  by (simp add: str.simps digit_def)

lemma import_loop_ns:
  "snd (import_loop ex ss (a, ns)) = foldl (\<lambda>n s. snd (ex s n)) ns ss"
  by (induction ss arbitrary: a ns) (auto split: prod.splits option.splits)

lemma import_loop_logged_mono:
  "set (logged a) \<subseteq> set (logged (fst (import_loop ex ss (a, ns))))"
proof (induction ss arbitrary: a ns)
  case Nil
  show ?case by simp
next
  case (Cons s ss)
  obtain r ns' where e: "ex s ns = (r, ns')" by (cases "ex s ns")
  show ?case
  proof (cases r)
    case None
    with e Cons.IH [of a ns'] show ?thesis by simp
  next
    case (Some x)
    with e Cons.IH [of "log_msg (''Error running import statement: '' @ s) a" ns']
    show ?thesis by (auto simp: log_msg_def)
  qed
qed

lemma import_loop_logs_failure:
  assumes "i < length ss"
    and "fst (ex (ss ! i) (foldl (\<lambda>n s. snd (ex s n)) ns (take i ss))) \<noteq> None"
  shows "(''Error running import statement: '' @ ss ! i)
           \<in> set (logged (fst (import_loop ex ss (a, ns))))"
  using assms
proof (induction ss arbitrary: a ns i)
  case Nil
  then show ?case by simp
next
  case (Cons s ss)
  obtain r ns' where e: "ex s ns = (r, ns')" by (cases "ex s ns")
  show ?case
  proof (cases i)
    case 0
    with Cons.prems e obtain x where r: "r = Some x" by auto
    have "(''Error running import statement: '' @ s)
        \<in> set (logged (log_msg (''Error running import statement: '' @ s) a))"
      by (simp add: log_msg_def)
    with import_loop_logged_mono [of "log_msg (''Error running import statement: '' @ s) a" ex ss ns']
    show ?thesis using 0 e r by auto
  next
    case (Suc j)
    with Cons.prems e have j: "j < length ss"
      and f: "fst (ex (ss ! j) (foldl (\<lambda>n s. snd (ex s n)) ns' (take j ss))) \<noteq> None"
      by simp_all
    show ?thesis
    proof (cases r)
      case None
      with Cons.IH [OF j f, of a] e Suc show ?thesis by simp
    next
      case (Some x)
      with Cons.IH [OF j f, of "log_msg (''Error running import statement: '' @ s) a"] e Suc
      show ?thesis by simp
    qed
  qed
qed

subsection \<open>Directory resolution\<close>

text \<open>
  C2.  When the cluster-directory setting (the command-line layer's if it is set,
  else the default layer's) is non-empty after \<open>expanduser\<close> and \<open>expandvars\<close>,
  \<open>find_cluster_dir\<close> returns normally with that expanded value, written to the
  attribute and to both layers, and changes nothing else.  The profile is never
  consulted: every state with the same cluster-directory settings and the same
  expansions, whatever its profile settings (set or not), its working directory,
  its \<open>ipythondir\<close> and its file system, resolves to the same value and leaves
  the \<open>profile\<close> attribute as it was.
\<close>

theorem explicit_cluster_dir_skips_profile:
  assumes "cluster_dir (Global (command_line_config a)) = Some d0
     \<or> (cluster_dir (Global (command_line_config a)) = None
          \<and> cluster_dir (Global (default_config a)) = Some d0)"
    and "expandvars a (expanduser a d0) = d" and "d \<noteq> []"
  shows "find_cluster_dir a =
           (None, a\<lparr>self_cluster_dir := Some d,
                     default_config := set_cluster_dir d (default_config a),
                     command_line_config := set_cluster_dir d (command_line_config a)\<rparr>)
       \<and> (\<forall>b. cluster_dir (Global (command_line_config b)) = cluster_dir (Global (command_line_config a))
              \<and> cluster_dir (Global (default_config b)) = cluster_dir (Global (default_config a))
              \<and> user_home b = user_home a \<and> env_subst b = env_subst a
           \<longrightarrow> fst (find_cluster_dir b) = None
              \<and> self_cluster_dir (snd (find_cluster_dir b)) = Some d
              \<and> self_profile (snd (find_cluster_dir b)) = self_profile b)"
proof (intro conjI allI impI)
  have s: "command_line_or_default cluster_dir a = Inr d0"
    using assms(1) by (rule setting_Inr)
  show "find_cluster_dir a =
           (None, a\<lparr>self_cluster_dir := Some d,
                     default_config := set_cluster_dir d (default_config a),
                     command_line_config := set_cluster_dir d (command_line_config a)\<rparr>)"
    using s assms(2,3) by (rule find_cluster_dir_explicit)
  fix b :: app
  assume b: "cluster_dir (Global (command_line_config b)) = cluster_dir (Global (command_line_config a))
              \<and> cluster_dir (Global (default_config b)) = cluster_dir (Global (default_config a))
              \<and> user_home b = user_home a \<and> env_subst b = env_subst a"
  then have sb: "command_line_or_default cluster_dir b = Inr d0"
    using s by (simp add: command_line_or_default_def split: option.splits)
  have "expanduser b d0 = expanduser a d0"
    using b by (simp add: expanduser_def)
  moreover have "expandvars b (expanduser a d0) = expandvars a (expanduser a d0)"
    using b by (simp add: expandvars_def)
  ultimately have eb: "expandvars b (expanduser b d0) = d"
    using assms(2) by simp
  note r = find_cluster_dir_explicit [OF sb eb assms(3)]
  show "fst (find_cluster_dir b) = None" by (simp add: r)
  show "self_cluster_dir (snd (find_cluster_dir b)) = Some d" by (simp add: r)
  show "self_profile (snd (find_cluster_dir b)) = self_profile b" by (simp add: r)
qed

theorem explicit_cluster_dir_skips_profile_witness:
  "cluster_dir (Global (command_line_config explicit_app)) = Some ''/srv/c''
   \<and> expandvars explicit_app (expanduser explicit_app ''/srv/c'') = ''/srv/c''
   \<and> fst (find_cluster_dir explicit_app) = None
   \<and> self_cluster_dir (snd (find_cluster_dir explicit_app)) = Some ''/srv/c''
   \<and> self_cluster_dir
        (snd (find_cluster_dir
          (explicit_app\<lparr>default_config := set_cluster_dir [] empty_config, cwd := ''/srv''\<rparr>))) =
       Some ''/srv/c''"
proof -
  have h1: "cluster_dir (Global (command_line_config explicit_app)) = Some ''/srv/c''"
    by (simp add: example_defs)
  have h2: "expandvars explicit_app (expanduser explicit_app ''/srv/c'') = ''/srv/c''"
    by (simp add: expandvars_def expanduser_def startswith_def)
  have h3: "''/srv/c'' \<noteq> []" by simp
  note t = explicit_cluster_dir_skips_profile [of explicit_app "''/srv/c''" "''/srv/c''", OF disjI1 [OF h1] h2 h3]
  have "fst (find_cluster_dir explicit_app) = None"
    and "self_cluster_dir (snd (find_cluster_dir explicit_app)) = Some ''/srv/c''"
    using t by simp_all
  moreover have "self_cluster_dir
        (snd (find_cluster_dir
          (explicit_app\<lparr>default_config := set_cluster_dir [] empty_config, cwd := ''/srv''\<rparr>))) =
       Some ''/srv/c''"
    using conjunct2 [OF t, rule_format,
        of "explicit_app\<lparr>default_config := set_cluster_dir [] empty_config, cwd := ''/srv''\<rparr>"]
    by (simp add: example_defs)
  ultimately show ?thesis using h1 h2 by simp
qed


text \<open>
  C3.  When the expanded cluster-directory setting is empty, \<open>find_cluster_dir\<close>
  reads the profile (the command-line layer's if it is set, else the default
  layer's, which \<open>create_default_config\<close> sets to \<open>default\<close>), forms
  \<open>cluster_<profile>\<close> and resolves to that name under the working directory if
  it is a directory there, otherwise to that name under \<open>ipythondir\<close>.
\<close>

theorem empty_cluster_dir_uses_profile:
  assumes "cluster_dir (Global (command_line_config a)) = Some d0
     \<or> (cluster_dir (Global (command_line_config a)) = None
          \<and> cluster_dir (Global (default_config a)) = Some d0)"
    and "expandvars a (expanduser a d0) = []"
    and "profile (Global (command_line_config a)) = Some p
     \<or> (profile (Global (command_line_config a)) = None
          \<and> profile (Global (default_config a)) = Some p)"
  shows "fst (find_cluster_dir a) = None
       \<and> self_profile (snd (find_cluster_dir a)) = Some p
       \<and> self_cluster_dir (snd (find_cluster_dir a)) =
           Some (if isdir (fs a) (join (cwd a) (''cluster_'' @ p))
                 then join (cwd a) (''cluster_'' @ p)
                 else join (ipythondir a) (''cluster_'' @ p))
       \<and> profile (Global (default_config (create_default_config a))) = Some ''default''"
proof -
  have s: "command_line_or_default cluster_dir a = Inr d0"
    using assms(1) by (rule setting_Inr)
  have q: "command_line_or_default profile a = Inr p"
    using assms(3) by (rule setting_Inr)
  note r = find_cluster_dir_profile [OF s assms(2) q refl]
  show ?thesis by (simp add: r create_default_config_def)
qed

theorem empty_cluster_dir_uses_profile_witness:
  "cluster_dir (Global (command_line_config default_app)) = None
   \<and> cluster_dir (Global (default_config default_app)) = Some []
   \<and> expandvars default_app (expanduser default_app []) = []
   \<and> profile (Global (command_line_config default_app)) = None
   \<and> profile (Global (default_config default_app)) = Some ''default''
   \<and> self_cluster_dir (snd (find_cluster_dir default_app)) =
       Some ''/home/u/.ipython/cluster_default''
   \<and> self_cluster_dir
        (snd (find_cluster_dir (default_app\<lparr>fs := [''/w/cluster_default'' \<mapsto> Dir 493]\<rparr>))) =
       Some ''/w/cluster_default''"
proof -
  let ?b = "default_app\<lparr>fs := [''/w/cluster_default'' \<mapsto> Dir 493]\<rparr>"
  have h1: "cluster_dir (Global (command_line_config default_app)) = None
      \<and> cluster_dir (Global (default_config default_app)) = Some []"
    by (simp add: example_defs)
  have h2: "expandvars default_app (expanduser default_app []) = []"
    by (simp add: expandvars_def expanduser_def startswith_def)
  have h3: "profile (Global (command_line_config default_app)) = None
      \<and> profile (Global (default_config default_app)) = Some ''default''"
    by (simp add: example_defs)
  have g1: "cluster_dir (Global (command_line_config ?b)) = None
      \<and> cluster_dir (Global (default_config ?b)) = Some []"
    by (simp add: example_defs)
  have g2: "expandvars ?b (expanduser ?b []) = []"
    by (simp add: expandvars_def expanduser_def startswith_def)
  have g3: "profile (Global (command_line_config ?b)) = None
      \<and> profile (Global (default_config ?b)) = Some ''default''"
    by (simp add: example_defs)
  have "self_cluster_dir (snd (find_cluster_dir default_app)) =
       Some ''/home/u/.ipython/cluster_default''"
    using empty_cluster_dir_uses_profile [of default_app "[]" "''default''", OF disjI2 [OF h1] h2 disjI2 [OF h3]]
    by (simp add: example_defs path_defs)
  moreover have "self_cluster_dir (snd (find_cluster_dir ?b)) = Some ''/w/cluster_default''"
    using empty_cluster_dir_uses_profile [of ?b "[]" "''default''", OF disjI2 [OF g1] g2 disjI2 [OF g3]]
    by (simp add: example_defs path_defs)
  ultimately show ?thesis using h1 h2 h3 by simp
qed

text \<open>
  C4.  Whenever \<open>find_cluster_dir\<close> returns normally, the default layer and the
  command-line layer hold the same \<open>cluster_dir\<close>, the resolved value; and it
  returns normally whenever the default layer sets \<open>cluster_dir\<close> and \<open>profile\<close>,
  as \<open>create_default_config\<close> does.
\<close>

theorem find_cluster_dir_layers_agree:
  "(fst (find_cluster_dir a) = None \<longrightarrow>
      (\<exists>r. self_cluster_dir (snd (find_cluster_dir a)) = Some r
         \<and> cluster_dir (Global (default_config (snd (find_cluster_dir a)))) = Some r
         \<and> cluster_dir (Global (command_line_config (snd (find_cluster_dir a)))) = Some r))
   \<and> (cluster_dir (Global (default_config a)) \<noteq> None
        \<and> profile (Global (default_config a)) \<noteq> None
      \<longrightarrow> fst (find_cluster_dir a) = None)"
proof (intro conjI impI)
  assume "fst (find_cluster_dir a) = None"
  then show "\<exists>r. self_cluster_dir (snd (find_cluster_dir a)) = Some r
         \<and> cluster_dir (Global (default_config (snd (find_cluster_dir a)))) = Some r
         \<and> cluster_dir (Global (command_line_config (snd (find_cluster_dir a)))) = Some r"
    by (auto simp: find_cluster_dir_def set_cluster_dir_def Let_def
        split: sum.splits if_splits prod.splits)
next
  assume "cluster_dir (Global (default_config a)) \<noteq> None
        \<and> profile (Global (default_config a)) \<noteq> None"
  then obtain d0 p where "command_line_or_default cluster_dir a = Inr d0"
    and "command_line_or_default profile a = Inr p"
    using setting_defined [of cluster_dir a] setting_defined [of profile a] by blast
  then show "fst (find_cluster_dir a) = None"
    by (simp add: find_cluster_dir_def Let_def)
qed

theorem find_cluster_dir_layers_agree_witness:
  "fst (find_cluster_dir explicit_app) = None
   \<and> cluster_dir (Global (default_config (snd (find_cluster_dir explicit_app)))) =
       cluster_dir (Global (command_line_config (snd (find_cluster_dir explicit_app))))"
proof -
  have h: "cluster_dir (Global (default_config explicit_app)) \<noteq> None
        \<and> profile (Global (default_config explicit_app)) \<noteq> None"
    by (simp add: example_defs)
  have c: "fst (find_cluster_dir explicit_app) = None"
    using find_cluster_dir_layers_agree [of explicit_app] h by blast
  with find_cluster_dir_layers_agree [of explicit_app] show ?thesis by auto
qed

text \<open>
  C9.  The claim is that the resolved cluster directory is always an absolute
  path, also for an explicit relative setting; the docstring of \<open>find_cluster_dir\<close>
  asks for the full path as well.  Started with \<open>--cluster-dir mycluster\<close>, the
  method returns normally and the resolved value, in the attribute and in both
  layers, is the relative \<open>mycluster\<close>.
\<close>

theorem relative_cluster_dir_not_absolute:
  "cluster_dir (Global (command_line_config relative_app)) = Some ''mycluster''
   \<and> find_cluster_dir relative_app =
       (None, relative_app\<lparr>self_cluster_dir := Some ''mycluster'',
                default_config := set_cluster_dir ''mycluster'' (default_config relative_app),
                command_line_config :=
                  set_cluster_dir ''mycluster'' (command_line_config relative_app)\<rparr>)
   \<and> \<not> isabs ''mycluster''"
proof -
  have s: "command_line_or_default cluster_dir relative_app = Inr ''mycluster''"
    by (simp add: command_line_or_default_def example_defs)
  have e: "expandvars relative_app (expanduser relative_app ''mycluster'') = ''mycluster''"
    by (simp add: expandvars_def expanduser_def startswith_def)
  have "find_cluster_dir relative_app =
       (None, relative_app\<lparr>self_cluster_dir := Some ''mycluster'',
                default_config := set_cluster_dir ''mycluster'' (default_config relative_app),
                command_line_config :=
                  set_cluster_dir ''mycluster'' (command_line_config relative_app)\<rparr>)"
    using s e by (rule find_cluster_dir_explicit) simp
  moreover have "cluster_dir (Global (command_line_config relative_app)) = Some ''mycluster''"
    by (simp add: example_defs)
  moreover have "\<not> isabs ''mycluster''"
    by (simp add: isabs_def startswith_def)
  ultimately show ?thesis by simp
qed

text \<open>
  C10, as stated, fails.  With no \<open>cluster_dir\<close> on the command line, \<open>/srv/c\<close>
  in the file-based layer and the empty default, resolution does not use the
  file-based layer's value: it falls through to the profile.
\<close>

theorem file_layer_cluster_dir_not_used:
  "cluster_dir (Global (command_line_config file_layer_app)) = None
   \<and> cluster_dir (Global (file_config file_layer_app)) = Some ''/srv/c''
   \<and> cluster_dir (Global (default_config file_layer_app)) = Some []
   \<and> fst (find_cluster_dir file_layer_app) = None
   \<and> self_cluster_dir (snd (find_cluster_dir file_layer_app)) =
       Some ''/home/u/.ipython/cluster_default''
   \<and> self_cluster_dir (snd (find_cluster_dir file_layer_app)) \<noteq> Some ''/srv/c''"
proof -
  have s: "command_line_or_default cluster_dir file_layer_app = Inr []"
    by (simp add: command_line_or_default_def example_defs)
  have q: "command_line_or_default profile file_layer_app = Inr ''default''"
    by (simp add: command_line_or_default_def example_defs)
  have e: "expandvars file_layer_app (expanduser file_layer_app []) = []"
    by (simp add: expandvars_def expanduser_def startswith_def)
  note r = find_cluster_dir_profile [OF s e q refl]
  have "self_cluster_dir (snd (find_cluster_dir file_layer_app)) =
       Some ''/home/u/.ipython/cluster_default''"
    by (simp add: r) (simp add: example_defs path_defs)
  moreover have "fst (find_cluster_dir file_layer_app) = None" by (simp add: r)
  moreover have "cluster_dir (Global (command_line_config file_layer_app)) = None
   \<and> cluster_dir (Global (file_config file_layer_app)) = Some ''/srv/c''
   \<and> cluster_dir (Global (default_config file_layer_app)) = Some []"
    by (simp add: example_defs)
  ultimately show ?thesis by simp
qed

text \<open>
  C10, amended.  For \<open>Global.cluster_dir\<close>, directory resolution honours the
  two-layer precedence command line over default and never reads the file-based
  layer.  When the command-line layer sets the value and it expands to a
  non-empty path, that path is the resolved directory; when the command-line
  layer does not set it and the default layer's value expands to a non-empty
  path, that path is the resolved directory; when the value so chosen expands
  to the empty path, the resolved directory is the profile's.  Whatever the
  file-based layer holds, the outcome and the resolved directory are the same;
  a value on the command line makes the default layer's value irrelevant; and
  the default layer's value acts exactly as if it had been given on the command
  line.
\<close>

theorem cluster_dir_precedence_two_layers:
  "(\<forall>d. cluster_dir (Global (command_line_config a)) = Some d \<longrightarrow>
         expandvars a (expanduser a d) \<noteq> [] \<longrightarrow>
           fst (find_cluster_dir a) = None
         \<and> self_cluster_dir (snd (find_cluster_dir a)) = Some (expandvars a (expanduser a d))
         \<and> cluster_dir (Global (command_line_config (snd (find_cluster_dir a)))) =
             Some (expandvars a (expanduser a d)))
   \<and> (\<forall>d. cluster_dir (Global (command_line_config a)) = None \<longrightarrow>
         cluster_dir (Global (default_config a)) = Some d \<longrightarrow>
         expandvars a (expanduser a d) \<noteq> [] \<longrightarrow>
           fst (find_cluster_dir a) = None
         \<and> self_cluster_dir (snd (find_cluster_dir a)) = Some (expandvars a (expanduser a d))
         \<and> cluster_dir (Global (command_line_config (snd (find_cluster_dir a)))) =
             Some (expandvars a (expanduser a d)))
   \<and> (\<forall>d p. (cluster_dir (Global (command_line_config a)) = Some d
            \<or> (cluster_dir (Global (command_line_config a)) = None
                 \<and> cluster_dir (Global (default_config a)) = Some d)) \<longrightarrow>
         expandvars a (expanduser a d) = [] \<longrightarrow>
         (profile (Global (command_line_config a)) = Some p
            \<or> (profile (Global (command_line_config a)) = None
                 \<and> profile (Global (default_config a)) = Some p)) \<longrightarrow>
           fst (find_cluster_dir a) = None
         \<and> self_cluster_dir (snd (find_cluster_dir a)) =
             Some (if isdir (fs a) (join (cwd a) (''cluster_'' @ p))
                   then join (cwd a) (''cluster_'' @ p)
                   else join (ipythondir a) (''cluster_'' @ p)))
   \<and> (\<forall>fc. fst (find_cluster_dir (a\<lparr>file_config := fc\<rparr>)) = fst (find_cluster_dir a)
       \<and> self_cluster_dir (snd (find_cluster_dir (a\<lparr>file_config := fc\<rparr>))) =
           self_cluster_dir (snd (find_cluster_dir a)))
   \<and> (cluster_dir (Global (command_line_config a)) \<noteq> None \<longrightarrow>
        (\<forall>x. self_cluster_dir (snd (find_cluster_dir
                (a\<lparr>default_config :=
                     (default_config a)\<lparr>Global := (Global (default_config a))\<lparr>cluster_dir := x\<rparr>\<rparr>\<rparr>))) =
             self_cluster_dir (snd (find_cluster_dir a))))
   \<and> (cluster_dir (Global (command_line_config a)) = None \<longrightarrow>
        (\<forall>d. cluster_dir (Global (default_config a)) = Some d \<longrightarrow>
           self_cluster_dir (snd (find_cluster_dir a)) =
           self_cluster_dir (snd (find_cluster_dir
                (a\<lparr>command_line_config :=
                     (command_line_config a)\<lparr>Global := (Global (command_line_config a))\<lparr>cluster_dir := Some d\<rparr>\<rparr>\<rparr>)))))"
proof -
  have explicit: "fst (find_cluster_dir a) = None
         \<and> self_cluster_dir (snd (find_cluster_dir a)) = Some (expandvars a (expanduser a d))
         \<and> cluster_dir (Global (command_line_config (snd (find_cluster_dir a)))) =
             Some (expandvars a (expanduser a d))"
    if "cluster_dir (Global (command_line_config a)) = Some d
            \<or> (cluster_dir (Global (command_line_config a)) = None
                 \<and> cluster_dir (Global (default_config a)) = Some d)"
      and "expandvars a (expanduser a d) \<noteq> []" for d
  proof -
    have s: "command_line_or_default cluster_dir a = Inr d"
      using that(1) by (rule setting_Inr)
    show ?thesis
      by (simp add: find_cluster_dir_explicit [OF s refl that(2)] set_cluster_dir_def)
  qed
  have P1: "\<forall>d. cluster_dir (Global (command_line_config a)) = Some d \<longrightarrow>
         expandvars a (expanduser a d) \<noteq> [] \<longrightarrow>
           fst (find_cluster_dir a) = None
         \<and> self_cluster_dir (snd (find_cluster_dir a)) = Some (expandvars a (expanduser a d))
         \<and> cluster_dir (Global (command_line_config (snd (find_cluster_dir a)))) =
             Some (expandvars a (expanduser a d))"
    using explicit by blast
  have P2: "\<forall>d. cluster_dir (Global (command_line_config a)) = None \<longrightarrow>
         cluster_dir (Global (default_config a)) = Some d \<longrightarrow>
         expandvars a (expanduser a d) \<noteq> [] \<longrightarrow>
           fst (find_cluster_dir a) = None
         \<and> self_cluster_dir (snd (find_cluster_dir a)) = Some (expandvars a (expanduser a d))
         \<and> cluster_dir (Global (command_line_config (snd (find_cluster_dir a)))) =
             Some (expandvars a (expanduser a d))"
    using explicit by blast
  have P3: "\<forall>d p. (cluster_dir (Global (command_line_config a)) = Some d
            \<or> (cluster_dir (Global (command_line_config a)) = None
                 \<and> cluster_dir (Global (default_config a)) = Some d)) \<longrightarrow>
         expandvars a (expanduser a d) = [] \<longrightarrow>
         (profile (Global (command_line_config a)) = Some p
            \<or> (profile (Global (command_line_config a)) = None
                 \<and> profile (Global (default_config a)) = Some p)) \<longrightarrow>
           fst (find_cluster_dir a) = None
         \<and> self_cluster_dir (snd (find_cluster_dir a)) =
             Some (if isdir (fs a) (join (cwd a) (''cluster_'' @ p))
                   then join (cwd a) (''cluster_'' @ p)
                   else join (ipythondir a) (''cluster_'' @ p))"
  proof (intro allI impI)
    fix d p
    assume c: "cluster_dir (Global (command_line_config a)) = Some d
            \<or> (cluster_dir (Global (command_line_config a)) = None
                 \<and> cluster_dir (Global (default_config a)) = Some d)"
      and e: "expandvars a (expanduser a d) = []"
      and q: "profile (Global (command_line_config a)) = Some p
            \<or> (profile (Global (command_line_config a)) = None
                 \<and> profile (Global (default_config a)) = Some p)"
    have s: "command_line_or_default cluster_dir a = Inr d" using c by (rule setting_Inr)
    have t: "command_line_or_default profile a = Inr p" using q by (rule setting_Inr)
    show "fst (find_cluster_dir a) = None
         \<and> self_cluster_dir (snd (find_cluster_dir a)) =
             Some (if isdir (fs a) (join (cwd a) (''cluster_'' @ p))
                   then join (cwd a) (''cluster_'' @ p)
                   else join (ipythondir a) (''cluster_'' @ p))"
      by (simp add: find_cluster_dir_profile [OF s e t refl])
  qed
  have P4: "\<forall>fc. fst (find_cluster_dir (a\<lparr>file_config := fc\<rparr>)) = fst (find_cluster_dir a)
       \<and> self_cluster_dir (snd (find_cluster_dir (a\<lparr>file_config := fc\<rparr>))) =
           self_cluster_dir (snd (find_cluster_dir a))"
    by (intro allI find_cluster_dir_cong)
      (simp_all add: command_line_or_default_def split: option.splits)
  have P5: "cluster_dir (Global (command_line_config a)) \<noteq> None \<longrightarrow>
        (\<forall>x. self_cluster_dir (snd (find_cluster_dir
                (a\<lparr>default_config :=
                     (default_config a)\<lparr>Global := (Global (default_config a))\<lparr>cluster_dir := x\<rparr>\<rparr>\<rparr>))) =
             self_cluster_dir (snd (find_cluster_dir a)))"
  proof (intro impI allI)
    fix x
    assume "cluster_dir (Global (command_line_config a)) \<noteq> None"
    then have "fst (find_cluster_dir (a\<lparr>default_config :=
                     (default_config a)\<lparr>Global := (Global (default_config a))\<lparr>cluster_dir := x\<rparr>\<rparr>\<rparr>))
        = fst (find_cluster_dir a)
      \<and> self_cluster_dir (snd (find_cluster_dir
                (a\<lparr>default_config :=
                     (default_config a)\<lparr>Global := (Global (default_config a))\<lparr>cluster_dir := x\<rparr>\<rparr>\<rparr>))) =
             self_cluster_dir (snd (find_cluster_dir a))"
      by (intro find_cluster_dir_cong) (auto simp: command_line_or_default_def split: option.splits)
    then show "self_cluster_dir (snd (find_cluster_dir
                (a\<lparr>default_config :=
                     (default_config a)\<lparr>Global := (Global (default_config a))\<lparr>cluster_dir := x\<rparr>\<rparr>\<rparr>))) =
             self_cluster_dir (snd (find_cluster_dir a))"
      by simp
  qed
  have P6: "cluster_dir (Global (command_line_config a)) = None \<longrightarrow>
        (\<forall>d. cluster_dir (Global (default_config a)) = Some d \<longrightarrow>
           self_cluster_dir (snd (find_cluster_dir a)) =
           self_cluster_dir (snd (find_cluster_dir
                (a\<lparr>command_line_config :=
                     (command_line_config a)\<lparr>Global := (Global (command_line_config a))\<lparr>cluster_dir := Some d\<rparr>\<rparr>\<rparr>))))"
  proof (intro impI allI)
    fix d
    assume "cluster_dir (Global (command_line_config a)) = None"
      and "cluster_dir (Global (default_config a)) = Some d"
    then have "fst (find_cluster_dir (a\<lparr>command_line_config :=
                     (command_line_config a)\<lparr>Global := (Global (command_line_config a))\<lparr>cluster_dir := Some d\<rparr>\<rparr>\<rparr>))
        = fst (find_cluster_dir a)
      \<and> self_cluster_dir (snd (find_cluster_dir
                (a\<lparr>command_line_config :=
                     (command_line_config a)\<lparr>Global := (Global (command_line_config a))\<lparr>cluster_dir := Some d\<rparr>\<rparr>\<rparr>))) =
             self_cluster_dir (snd (find_cluster_dir a))"
      by (intro find_cluster_dir_cong) (auto simp: command_line_or_default_def split: option.splits)
    then show "self_cluster_dir (snd (find_cluster_dir a)) =
           self_cluster_dir (snd (find_cluster_dir
                (a\<lparr>command_line_config :=
                     (command_line_config a)\<lparr>Global := (Global (command_line_config a))\<lparr>cluster_dir := Some d\<rparr>\<rparr>\<rparr>)))"
      by simp
  qed
  from P1 P2 P3 P4 P5 P6 show ?thesis by (intro conjI)
qed

theorem cluster_dir_precedence_two_layers_witness:
  "cluster_dir (Global (command_line_config explicit_app)) = Some ''/srv/c''
   \<and> cluster_dir (Global (default_config explicit_app)) = Some []
   \<and> self_cluster_dir (snd (find_cluster_dir explicit_app)) = Some ''/srv/c''
   \<and> cluster_dir (Global (command_line_config default_dir_app)) = None
   \<and> cluster_dir (Global (default_config default_dir_app)) = Some ''/opt/d''
   \<and> cluster_dir (Global (file_config default_dir_app)) = Some ''/srv/c''
   \<and> self_cluster_dir (snd (find_cluster_dir default_dir_app)) = Some ''/opt/d''
   \<and> cluster_dir (Global (command_line_config file_layer_app)) = None
   \<and> cluster_dir (Global (default_config file_layer_app)) = Some []
   \<and> cluster_dir (Global (file_config file_layer_app)) = Some ''/srv/c''
   \<and> self_cluster_dir (snd (find_cluster_dir file_layer_app)) =
       Some ''/home/u/.ipython/cluster_default''
   \<and> self_cluster_dir (snd (find_cluster_dir (file_layer_app\<lparr>file_config := empty_config\<rparr>))) =
       Some ''/home/u/.ipython/cluster_default''"
proof -
  have e1: "cluster_dir (Global (command_line_config explicit_app)) = Some ''/srv/c''"
    and e2: "cluster_dir (Global (default_config explicit_app)) = Some []"
    and e3: "expandvars explicit_app (expanduser explicit_app ''/srv/c'') = ''/srv/c''"
    by (simp_all add: example_defs expandvars_def expanduser_def startswith_def)
  have d1: "cluster_dir (Global (command_line_config default_dir_app)) = None"
    and d2: "cluster_dir (Global (default_config default_dir_app)) = Some ''/opt/d''"
    and d3: "cluster_dir (Global (file_config default_dir_app)) = Some ''/srv/c''"
    and d4: "expandvars default_dir_app (expanduser default_dir_app ''/opt/d'') = ''/opt/d''"
    by (simp_all add: example_defs expandvars_def expanduser_def startswith_def)
  have f1: "cluster_dir (Global (command_line_config file_layer_app)) = None"
    and f2: "cluster_dir (Global (default_config file_layer_app)) = Some []"
    and f3: "cluster_dir (Global (file_config file_layer_app)) = Some ''/srv/c''"
    and f4: "expandvars file_layer_app (expanduser file_layer_app []) = []"
    and f5: "profile (Global (command_line_config file_layer_app)) = None"
    and f6: "profile (Global (default_config file_layer_app)) = Some ''default''"
    by (simp_all add: example_defs expandvars_def expanduser_def startswith_def)
  have f7: "(if isdir (fs file_layer_app) (join (cwd file_layer_app) (''cluster_'' @ ''default''))
             then join (cwd file_layer_app) (''cluster_'' @ ''default'')
             else join (ipythondir file_layer_app) (''cluster_'' @ ''default'')) =
            ''/home/u/.ipython/cluster_default''"
    by (simp add: example_defs path_defs)
  note te = cluster_dir_precedence_two_layers [of explicit_app]
  note td = cluster_dir_precedence_two_layers [of default_dir_app]
  note tf = cluster_dir_precedence_two_layers [of file_layer_app]
  have r1: "self_cluster_dir (snd (find_cluster_dir explicit_app)) = Some ''/srv/c''"
    using conjunct1 [OF te, rule_format, of "''/srv/c''"] e1 e3 by simp
  have r2: "self_cluster_dir (snd (find_cluster_dir default_dir_app)) = Some ''/opt/d''"
    using conjunct1 [OF conjunct2 [OF td], rule_format, of "''/opt/d''"] d1 d2 d4 by simp
  have r3: "self_cluster_dir (snd (find_cluster_dir file_layer_app)) =
       Some ''/home/u/.ipython/cluster_default''"
    using conjunct1 [OF conjunct2 [OF conjunct2 [OF tf]], rule_format, of "[]" "''default''"]
      f1 f2 f4 f5 f6 f7 by simp
  have r4: "self_cluster_dir (snd (find_cluster_dir (file_layer_app\<lparr>file_config := empty_config\<rparr>))) =
       Some ''/home/u/.ipython/cluster_default''"
    using conjunct1 [OF conjunct2 [OF conjunct2 [OF conjunct2 [OF tf]]], rule_format, of empty_config]
      r3 by simp
  from e1 e2 r1 d1 d2 d3 r2 f1 f2 f3 r3 r4 show ?thesis by (intro conjI)
qed

subsection \<open>Provisioning: \<open>pre_construct\<close>\<close>



text \<open>
  C8, as stated, fails.  On a first start under the usual umask \<open>022\<close> the log
  subdirectory is not there; \<open>pre_construct\<close> makes it with \<open>os.mkdir(log_dir, 0777)\<close>
  and its permission bits are \<open>0755\<close>, not \<open>0777\<close>.
\<close>

theorem log_dir_made_under_umask:
  "fs fresh_app ''/srv/c/log'' = None
   \<and> umask fresh_app = oct [0, 2, 2]
   \<and> fs (snd (pre_construct fresh_app)) ''/srv/c/log'' = Some (Dir (oct [0, 7, 5, 5]))
   \<and> oct [0, 7, 5, 5] \<noteq> oct [0, 7, 7, 7]"
proof -
  have j: "join ''/srv/c'' ''security'' = ''/srv/c/security''"
    "join ''/srv/c'' ''log'' = ''/srv/c/log''"
    "dirname ''/srv/c/security'' = ''/srv/c''"
    "dirname ''/srv/c/log'' = ''/srv/c''"
    by (simp_all add: path_defs)
  have d1: "cluster_dir (Global (master_config fresh_app)) = Some ''/srv/c''"
    and d2: "security_dir_name (Global (master_config fresh_app)) = Some ''security''"
    and d3: "log_dir_name (Global (master_config fresh_app)) = Some ''log''"
    and d4: "fs fresh_app ''/srv/c/log'' = None"
    and d5: "fs fresh_app ''/srv/c/security'' = None"
    and d6: "isdir (fs fresh_app) ''/srv/c''"
    and d7: "umask fresh_app = oct [0, 2, 2]"
    by (simp_all add: master_defs isdir_def)
  let ?f1 = "(fs fresh_app)(''/srv/c/security'' \<mapsto> Dir (oct [0, 7, 0, 0] AND NOT (umask fresh_app)))"
  have s: "(if \<not> isdir (fs fresh_app) ''/srv/c/security''
            then mkdir (umask fresh_app) (fs fresh_app) ''/srv/c/security'' (oct [0, 7, 0, 0])
            else chmod (fs fresh_app) ''/srv/c/security'' (oct [0, 7, 0, 0])) = Inr ?f1"
    using provision_security [of "fs fresh_app" "''/srv/c/security''" "umask fresh_app" "oct [0, 7, 0, 0]"]
      d5 d6 by (simp add: j isdir_def)
  have "?f1 ''/srv/c/log'' = None" using d4 by simp
  moreover have "isdir ?f1 (dirname ''/srv/c/log'')" using d6 by (simp add: j isdir_def)
  ultimately have l: "(if \<not> isdir ?f1 ''/srv/c/log''
            then mkdir (umask fresh_app) ?f1 ''/srv/c/log'' (oct [0, 7, 7, 7]) else Inr ?f1)
        = Inr (?f1(''/srv/c/log'' \<mapsto> Dir (oct [0, 7, 7, 7] AND NOT (umask fresh_app))))"
    by (intro provision_log_absent) simp_all
  have "fs (snd (pre_construct fresh_app)) =
      ?f1(''/srv/c/log'' \<mapsto> Dir (oct [0, 7, 7, 7] AND NOT (umask fresh_app)))"
    using pre_construct_fs_cases [OF d1 d2 d3, unfolded j] s l by simp
  then have "fs (snd (pre_construct fresh_app)) ''/srv/c/log'' =
      Some (Dir (oct [0, 7, 7, 7] AND NOT (umask fresh_app)))"
    by simp
  moreover have "oct [0, 7, 7, 7] AND NOT (umask fresh_app) = oct [0, 7, 5, 5]"
    by (simp add: d7) (simp add: oct_def)
  moreover have "oct [0, 7, 5, 5] \<noteq> oct [0, 7, 7, 7]" by (simp add: oct_def)
  ultimately show ?thesis using d4 d7 by simp
qed

text \<open>
  C8, amended.  \<open>pre_construct\<close> changes the permissions of the security
  subdirectory only.  Every path other than the security subdirectory that named
  something before names the same node, with the same permission bits,
  afterwards: so a log subdirectory that is there is left as it was (no chmod
  is applied to it).  No path other than the two subdirectories changes at all.
  A log subdirectory that is not there is made by \<open>os.mkdir\<close> with mode \<open>0777\<close>:
  its permission bits are those of \<open>0777\<close> that the process umask does not mask
  (\<open>0755\<close> under umask \<open>022\<close>, \<open>0777\<close> only under umask \<open>0\<close>).
\<close>

theorem log_dir_permissions_kept:
  assumes "cluster_dir (Global (master_config a)) = Some cd"
    and "security_dir_name (Global (master_config a)) = Some sn"
    and "log_dir_name (Global (master_config a)) = Some ln"
  shows "(\<forall>q. q \<noteq> join cd sn \<longrightarrow> fs a q \<noteq> None \<longrightarrow> fs (snd (pre_construct a)) q = fs a q)
       \<and> (\<forall>q. q \<noteq> join cd sn \<longrightarrow> q \<noteq> join cd ln \<longrightarrow> fs (snd (pre_construct a)) q = fs a q)
       \<and> (fs a (join cd ln) = None \<longrightarrow> join cd ln \<noteq> join cd sn \<longrightarrow>
            (dirname (join cd ln) = [] \<or> isdir (fs a) (dirname (join cd ln))) \<longrightarrow>
            ((fs a (join cd sn) = None
                \<and> (dirname (join cd sn) = [] \<or> isdir (fs a) (dirname (join cd sn))))
              \<or> (\<exists>m. fs a (join cd sn) = Some (Dir m))) \<longrightarrow>
            fs (snd (pre_construct a)) (join cd ln) =
              Some (Dir (oct [0, 7, 7, 7] AND NOT (umask a)))
            \<and> (umask a = 0 \<longrightarrow>
                 fs (snd (pre_construct a)) (join cd ln) = Some (Dir (oct [0, 7, 7, 7]))))"
proof -
  let ?sec = "join cd sn" and ?log = "join cd ln"
  let ?m = "if isdir (fs a) ?sec then oct [0, 7, 0, 0] else oct [0, 7, 0, 0] AND NOT (umask a)"
  let ?f1 = "(fs a)(?sec \<mapsto> Dir ?m)"
  let ?S = "if \<not> isdir (fs a) ?sec then mkdir (umask a) (fs a) ?sec (oct [0, 7, 0, 0])
            else chmod (fs a) ?sec (oct [0, 7, 0, 0])"
  let ?made = "Dir (oct [0, 7, 7, 7] AND NOT (umask a))"
  note c = pre_construct_fs_cases [OF assms]
  have shape: "fs (snd (pre_construct a)) = fs a
      \<or> fs (snd (pre_construct a)) = ?f1
      \<or> (fs a ?log = None \<and> ?log \<noteq> ?sec \<and> fs (snd (pre_construct a)) = ?f1(?log \<mapsto> ?made))"
  proof (cases ?S)
    case (Inl e)
    with c show ?thesis by simp
  next
    case (Inr f1)
    then have f1: "f1 = ?f1" by (rule provision_security_frame)
    show ?thesis
    proof (cases "if \<not> isdir ?f1 ?log then mkdir (umask a) ?f1 ?log (oct [0, 7, 7, 7]) else Inr ?f1")
      case (Inl e)
      with c Inr f1 show ?thesis by simp
    next
      case l: (Inr f2)
      then have "f2 = (case ?f1 ?log of None \<Rightarrow> ?f1(?log \<mapsto> ?made) | Some n \<Rightarrow> ?f1)"
        by (rule provision_log)
      moreover have "fs (snd (pre_construct a)) = f2"
        using c Inr f1 l by simp
      ultimately show ?thesis
        by (auto split: option.splits if_splits)
    qed
  qed
  have A: "\<forall>q. q \<noteq> ?sec \<longrightarrow> fs a q \<noteq> None \<longrightarrow> fs (snd (pre_construct a)) q = fs a q"
    using shape by auto
  have B: "\<forall>q. q \<noteq> ?sec \<longrightarrow> q \<noteq> ?log \<longrightarrow> fs (snd (pre_construct a)) q = fs a q"
    using shape by auto
  have C: "fs (snd (pre_construct a)) ?log = Some ?made
      \<and> (umask a = 0 \<longrightarrow> fs (snd (pre_construct a)) ?log = Some (Dir (oct [0, 7, 7, 7])))"
    if "fs a ?log = None" and "?log \<noteq> ?sec"
      and "dirname ?log = [] \<or> isdir (fs a) (dirname ?log)"
      and "(fs a ?sec = None \<and> (dirname ?sec = [] \<or> isdir (fs a) (dirname ?sec)))
           \<or> (\<exists>m. fs a ?sec = Some (Dir m))"
  proof -
    have s: "?S = Inr ?f1" using that(4) by (rule provision_security)
    have "?f1 ?log = None" using that(1,2) by simp
    moreover have "dirname ?log = [] \<or> isdir ?f1 (dirname ?log)"
      using that(3) by (auto simp: isdir_iff)
    ultimately have "(if \<not> isdir ?f1 ?log then mkdir (umask a) ?f1 ?log (oct [0, 7, 7, 7]) else Inr ?f1)
        = Inr (?f1(?log \<mapsto> ?made))"
      by (rule provision_log_absent)
    with c s have "fs (snd (pre_construct a)) ?log = Some ?made" by simp
    then show ?thesis by auto
  qed
  from A B C show ?thesis by blast
qed

theorem log_dir_permissions_kept_witness:
  "fs restarted_app ''/srv/c/log'' = Some (Dir (oct [0, 7, 5, 5]))
   \<and> fs (snd (pre_construct restarted_app)) ''/srv/c/log'' = Some (Dir (oct [0, 7, 5, 5]))
   \<and> fs fresh_app ''/srv/c/log'' = None
   \<and> fs fresh_app ''/srv/c/security'' = None
   \<and> isdir (fs fresh_app) ''/srv/c''
   \<and> fs (snd (pre_construct fresh_app)) ''/srv/c/log'' =
       Some (Dir (oct [0, 7, 7, 7] AND NOT (umask fresh_app)))
   \<and> fs (snd (pre_construct fresh_app)) ''/srv/c'' = Some (Dir (oct [0, 7, 5, 5]))
   \<and> umask (fresh_app\<lparr>umask := 0\<rparr>) = 0
   \<and> fs (snd (pre_construct (fresh_app\<lparr>umask := 0\<rparr>))) ''/srv/c/log'' =
       Some (Dir (oct [0, 7, 7, 7]))"
proof -
  let ?z = "fresh_app\<lparr>umask := 0\<rparr>"
  have js: "join ''/srv/c'' ''security'' = ''/srv/c/security''"
    and jl: "join ''/srv/c'' ''log'' = ''/srv/c/log''"
    and ds: "dirname ''/srv/c/security'' = ''/srv/c''"
    and dl: "dirname ''/srv/c/log'' = ''/srv/c''"
    by (simp_all add: path_defs)
  have c1: "cluster_dir (Global (master_config restarted_app)) = Some ''/srv/c''"
    and c2: "security_dir_name (Global (master_config restarted_app)) = Some ''security''"
    and c3: "log_dir_name (Global (master_config restarted_app)) = Some ''log''"
    and c4: "fs restarted_app ''/srv/c/log'' = Some (Dir (oct [0, 7, 5, 5]))"
    by (simp_all add: master_defs)
  have d1: "cluster_dir (Global (master_config fresh_app)) = Some ''/srv/c''"
    and d2: "security_dir_name (Global (master_config fresh_app)) = Some ''security''"
    and d3: "log_dir_name (Global (master_config fresh_app)) = Some ''log''"
    and d4: "fs fresh_app ''/srv/c/log'' = None"
    and d5: "fs fresh_app ''/srv/c/security'' = None"
    and d6: "fs fresh_app ''/srv/c'' = Some (Dir (oct [0, 7, 5, 5]))"
    by (simp_all add: master_defs)
  have d7: "isdir (fs fresh_app) ''/srv/c''" using d6 by (simp add: isdir_def)
  have z1: "cluster_dir (Global (master_config ?z)) = Some ''/srv/c''"
    and z2: "security_dir_name (Global (master_config ?z)) = Some ''security''"
    and z3: "log_dir_name (Global (master_config ?z)) = Some ''log''"
    using d1 d2 d3 by simp_all
  have z4: "fs ?z = fs fresh_app" and z5: "umask ?z = 0" by simp_all
  note r = log_dir_permissions_kept [OF c1 c2 c3, unfolded js jl]
  note f = log_dir_permissions_kept [OF d1 d2 d3, unfolded js jl ds dl]
  note z = log_dir_permissions_kept [OF z1 z2 z3, unfolded js jl ds dl z4]
  have "fs (snd (pre_construct restarted_app)) ''/srv/c/log'' = Some (Dir (oct [0, 7, 5, 5]))"
    using conjunct1 [OF r, rule_format, of "''/srv/c/log''"] c4 by simp
  moreover
  have "fs (snd (pre_construct fresh_app)) ''/srv/c/log'' =
       Some (Dir (oct [0, 7, 7, 7] AND NOT (umask fresh_app)))"
    using conjunct2 [OF conjunct2 [OF f]] d4 d5 d7 by simp
  moreover
  have "fs (snd (pre_construct fresh_app)) ''/srv/c'' = Some (Dir (oct [0, 7, 5, 5]))"
    using conjunct1 [OF f, rule_format, of "''/srv/c''"] d6 by simp
  moreover
  have "fs (snd (pre_construct ?z)) ''/srv/c/log'' = Some (Dir (oct [0, 7, 7, 7]))"
    using conjunct2 [OF conjunct2 [OF z]] d4 d5 d7 z5 by simp
  ultimately show ?thesis using c4 d4 d5 d7 z5 by simp
qed

text \<open>
  C5.  The claim is that \<open>pre_construct\<close> copies a set \<open>Global.reuse_furls\<close> to
  \<open>FCClientServiceFactory.reuse_furls\<close> and \<open>FCEngineServiceFactory.reuse_furls\<close>
  and returns normally.  The source guards the two assignments with \<open>hasattr\<close>
  called with one argument, which raises: on a restart with \<open>-r\<close> the method
  raises \<open>TypeError\<close> and neither factory has the setting afterwards.
\<close>

theorem reuse_furls_not_inherited:
  "reuse_furls (Global (master_config restarted_app)) = Some True
   \<and> reuse_furls (FCClientServiceFactory (master_config restarted_app)) = None
   \<and> reuse_furls (FCEngineServiceFactory (master_config restarted_app)) = None
   \<and> fst (pre_construct restarted_app) = Some TypeError
   \<and> reuse_furls (FCClientServiceFactory (master_config (snd (pre_construct restarted_app)))) = None
   \<and> reuse_furls (FCEngineServiceFactory (master_config (snd (pre_construct restarted_app)))) = None"
proof -
  have j: "join ''/srv/c'' ''security'' = ''/srv/c/security''"
     "join ''/srv/c'' ''log'' = ''/srv/c/log''"
    by (simp_all add: path_defs)
  have m: "master_config restarted_app = started_master"
    by (simp add: master_defs)
  have g: "cluster_dir (Global started_master) = Some ''/srv/c''"
    "security_dir_name (Global started_master) = Some ''security''"
    "log_dir_name (Global started_master) = Some ''log''"
    "reuse_furls (Global started_master) = Some True"
    "reuse_furls (FCClientServiceFactory started_master) = None"
    "reuse_furls (FCEngineServiceFactory started_master) = None"
    by (simp_all add: started_master_def empty_config_def empty_settings_def)
  have f: "isdir (fs restarted_app) ''/srv/c/security''" "isdir (fs restarted_app) ''/srv/c/log''"
    by (simp_all add: master_defs isdir_def)
  have "fst (pre_construct restarted_app) = Some TypeError"
    using f by (simp add: pre_construct_def m g j Let_def chmod_def isdir_def hasattr_1_def
      set_log_dir_def set_security_dir_def split: option.splits node.splits)
  with pre_construct_factories [of restarted_app] m g show ?thesis by simp
qed

subsection \<open>Logging and import statements\<close>

text \<open>
  C6.  With \<open>Global.log_to_file\<close> enabled, \<open>start_logging\<close> opens the file
  \<open><name>-<pid>.log\<close> under the log directory afresh (it is empty afterwards)
  and hands it to \<open>log.startLogging\<close>; with it disabled, it hands over the
  standard output stream and changes nothing else.
\<close>

theorem start_logging_stream:
  "(log_to_file (Global (master_config a)) = Some True \<longrightarrow> self_log_dir a = Some ld \<longrightarrow>
      \<not> isdir (fs a) (join ld (name @ ''-'' @ str (pid a) @ ''.log'')) \<longrightarrow>
        fst (start_logging a) = None
      \<and> log_observer (snd (start_logging a)) =
          Some (OpenFile (join ld (name @ ''-'' @ str (pid a) @ ''.log'')))
      \<and> (\<exists>m. fs (snd (start_logging a)) (join ld (name @ ''-'' @ str (pid a) @ ''.log'')) =
               Some (File m [])))
   \<and> (log_to_file (Global (master_config a)) = Some False \<longrightarrow>
        start_logging a = (None, a\<lparr>log_observer := Some Stdout\<rparr>))"
proof (intro conjI impI)
  let ?p = "join ld (name @ ''-'' @ str (pid a) @ ''.log'')"
  assume h: "log_to_file (Global (master_config a)) = Some True" "self_log_dir a = Some ld"
    "\<not> isdir (fs a) ?p"
  from open_w_not_dir [OF h(3)] obtain m where m: "open_w (fs a) ?p = Inr ((fs a)(?p \<mapsto> File m []))"
    by blast
  have r: "start_logging a =
      (None, a\<lparr>fs := (fs a)(?p \<mapsto> File m []), log_observer := Some (OpenFile ?p)\<rparr>)"
    using h(1,2) m by (simp add: start_logging_def Let_def)
  show "fst (start_logging a) = None" by (simp add: r)
  show "log_observer (snd (start_logging a)) = Some (OpenFile ?p)" by (simp add: r)
  show "\<exists>m. fs (snd (start_logging a)) ?p = Some (File m [])" by (simp add: r)
next
  assume "log_to_file (Global (master_config a)) = Some False"
  then show "start_logging a = (None, a\<lparr>log_observer := Some Stdout\<rparr>)"
    by (simp add: start_logging_def)
qed

theorem start_logging_stream_witness:
  "log_to_file (Global (master_config logging_app)) = Some True
   \<and> self_log_dir logging_app = Some ''/srv/c/log''
   \<and> pid logging_app = 4242
   \<and> fs logging_app ''/srv/c/log/ipcontroller-4242.log'' = None
   \<and> fst (start_logging logging_app) = None
   \<and> log_observer (snd (start_logging logging_app)) =
       Some (OpenFile ''/srv/c/log/ipcontroller-4242.log'')
   \<and> log_to_file (Global (master_config quiet_app)) = Some False
   \<and> log_observer (snd (start_logging quiet_app)) = Some Stdout"
proof -
  have p: "pid logging_app = 4242" by (simp add: master_defs)
  have j: "join ''/srv/c/log'' (name @ ''-'' @ str (pid logging_app) @ ''.log'') =
      ''/srv/c/log/ipcontroller-4242.log''"
    by (simp add: p str_4242 name_def path_defs)
  have h1: "log_to_file (Global (master_config logging_app)) = Some True"
    and h2: "self_log_dir logging_app = Some ''/srv/c/log''"
    and h3: "fs logging_app ''/srv/c/log/ipcontroller-4242.log'' = None"
    and h4: "log_to_file (Global (master_config quiet_app)) = Some False"
    by (simp_all add: master_defs)
  have h5: "\<not> isdir (fs logging_app) ''/srv/c/log/ipcontroller-4242.log''"
    using h3 by (simp add: isdir_def)
  note t = start_logging_stream [of logging_app "''/srv/c/log''", unfolded j]
  have "fst (start_logging logging_app) = None
    \<and> log_observer (snd (start_logging logging_app)) =
       Some (OpenFile ''/srv/c/log/ipcontroller-4242.log'')"
    using t h1 h2 h5 by blast
  moreover have "log_observer (snd (start_logging quiet_app)) = Some Stdout"
    using start_logging_stream [of quiet_app] h4 by simp
  ultimately show ?thesis using h1 h2 h3 h4 p by simp
qed

text \<open>
  C7.  For every list of configured import statements and whatever the
  statements do, \<open>import_statements\<close> returns normally; every statement is
  run, in order, in the namespace the statements before it have left, also
  after statements that raised; and for every statement that raises, the
  message naming it has been handed to \<open>log.msg\<close>.
\<close>

theorem import_statements_keep_going:
  assumes "import_statements (Global (master_config a)) = Some statements"
  shows "fst (import_statements_app ex (a, ns)) = None
       \<and> snd (snd (import_statements_app ex (a, ns))) =
           foldl (\<lambda>n s. snd (ex s n)) ns statements
       \<and> (\<forall>i<length statements.
             fst (ex (statements ! i) (foldl (\<lambda>n s. snd (ex s n)) ns (take i statements))) \<noteq> None
             \<longrightarrow> (''Error running import statement: '' @ statements ! i)
                   \<in> set (logged (fst (snd (import_statements_app ex (a, ns))))))"
proof -
  have r: "import_statements_app ex (a, ns) = (None, import_loop ex statements (a, ns))"
    using assms by (simp add: import_statements_app_def)
  have "\<forall>i<length statements.
             fst (ex (statements ! i) (foldl (\<lambda>n s. snd (ex s n)) ns (take i statements))) \<noteq> None
             \<longrightarrow> (''Error running import statement: '' @ statements ! i)
                   \<in> set (logged (fst (import_loop ex statements (a, ns))))"
    by (intro allI impI) (rule import_loop_logs_failure)
  then show ?thesis
    unfolding r by (simp only: fst_conv snd_conv import_loop_ns)
qed

theorem import_statements_keep_going_witness:
  "import_statements (Global (master_config fresh_app)) =
     Some [''import os'', ''import nosuchmodule'', ''x = 1'']
   \<and> fst (run_statement ''import nosuchmodule'' [''import os'']) \<noteq> None
   \<and> fst (import_statements_app run_statement (fresh_app, [])) = None
   \<and> snd (snd (import_statements_app run_statement (fresh_app, []))) = [''import os'', ''x = 1'']
   \<and> ''Error running import statement: import nosuchmodule''
        \<in> set (logged (fst (snd (import_statements_app run_statement (fresh_app, [])))))"
proof -
  have h: "import_statements (Global (master_config fresh_app)) =
     Some [''import os'', ''import nosuchmodule'', ''x = 1'']"
    by (simp add: master_defs)
  note t = import_statements_keep_going [OF h, of run_statement "[]"]
  have r: "fst (run_statement ''import nosuchmodule'' [''import os'']) \<noteq> None"
    by (simp add: run_statement_def)
  have "fst (import_statements_app run_statement (fresh_app, [])) = None"
    using t by simp
  moreover
  have "snd (snd (import_statements_app run_statement (fresh_app, []))) = [''import os'', ''x = 1'']"
    using t by (simp add: run_statement_def)
  moreover
  have "''Error running import statement: import nosuchmodule''
        \<in> set (logged (fst (snd (import_statements_app run_statement (fresh_app, [])))))"
    using conjunct2 [OF conjunct2 [OF t], rule_format, of 1]
    by (simp add: run_statement_def)
  ultimately show ?thesis using h r by simp
qed

end
